theory Spec2Isabelle
  imports Main "HOL-Library.Word"
begin

section \<open>Data model (app/users/models.py, app/users/schemas.py, app/config.py)\<close>

text \<open>
  A UUID is a 128-bit value. A \<^verbatim>\<open>datetime\<close> is counted in microseconds since the epoch
  (the resolution of Python's \<^verbatim>\<open>datetime\<close>), a \<^verbatim>\<open>timedelta\<close> in microseconds.
\<close>

type_synonym uuid = "128 word"
type_synonym datetime = int
type_synonym timedelta = int

datatype DomainType = CANARY | REGULAR

text \<open>The member \<^verbatim>\<open>Environment.PROD\<close> is \<open>PROD_ENV\<close> here (\<open>PROD\<close> is HOL's product syntax).\<close>

datatype Environment = PROD_ENV | PREPROD | STAGE

fun DomainType_value :: "DomainType \<Rightarrow> string" where
  "DomainType_value CANARY = ''canary''"
| "DomainType_value REGULAR = ''regular''"

fun Environment_value :: "Environment \<Rightarrow> string" where
  "Environment_value PROD_ENV = ''prod''"
| "Environment_value PREPROD = ''preprod''"
| "Environment_value STAGE = ''stage''"

text \<open>
  The ORM class \<^verbatim>\<open>User\<close>, one row of the table \<^verbatim>\<open>users\<close>. The column \<^verbatim>\<open>id\<close> is
  the field \<open>id_col\<close> here (\<open>id\<close> is HOL's identity function).
\<close>

record User =
  id_col :: uuid
  created_at :: datetime
  login :: string
  password :: string
  project_id :: uuid
  env :: string
  domain :: string
  locktime :: "datetime option"

text \<open>
  The request schema \<^verbatim>\<open>UserCreate\<close> (with the fields of \<^verbatim>\<open>UserBase\<close>) and the response
  schema \<^verbatim>\<open>UserResponse\<close>. Their fields carry a prefix, since a record field is a
  constant of the theory: \<open>c_login\<close> is \<^verbatim>\<open>UserCreate.login\<close>, \<open>r_login\<close> is
  \<^verbatim>\<open>UserResponse.login\<close>.
\<close>

record UserCreate =
  c_login :: string
  c_project_id :: uuid
  c_env :: Environment
  c_domain :: DomainType
  c_password :: string

record UserResponse =
  r_id :: uuid
  r_created_at :: datetime
  r_login :: string
  r_project_id :: uuid
  r_env :: string
  r_domain :: string
  r_locktime :: "datetime option"

record Token =
  access_token :: string
  token_type :: string

record TokenData =
  td_login :: "string option"

record Settings =
  SECRET_KEY :: string
  ALGORITHM :: string
  ACCESS_TOKEN_EXPIRE_MINUTES :: int

definition settings :: Settings where
  "settings = \<lparr>SECRET_KEY = ''your-secret-key'', ALGORITHM = ''HS256'',
     ACCESS_TOKEN_EXPIRE_MINUTES = 30\<rparr>"

text \<open>
  Everything the code raises, as a value. \<open>HTTPException\<close> carries the status code, the
  detail and the headers; the others are the exceptions of SQLAlchemy, pydantic, passlib
  and \<^verbatim>\<open>datetime\<close> that the code lets through or catches.
\<close>

datatype exn =
    IntegrityError
  | MultipleResultsFound
  | InvalidRequestError
  | ValidationError
  | OverflowError
  | PasswordValueError
  | HTTPException nat string "(string \<times> string) list"

section \<open>The account store (app/users/crud.py)\<close>

text \<open>
  The state of the database is the list of the rows of \<^verbatim>\<open>users\<close>. A function that writes
  returns the new state with its result; a raise is \<open>Inl\<close>.
\<close>

type_synonym db = "User list"

text \<open>\<^verbatim>\<open>Result.scalar_one_or_none()\<close>: no row, the row, or a raise on more than one.\<close>

fun scalar_one_or_none :: "'a list \<Rightarrow> exn + 'a option" where
  "scalar_one_or_none [] = Inr None"
| "scalar_one_or_none [r] = Inr (Some r)"
| "scalar_one_or_none (r # r' # rs) = Inl MultipleResultsFound"

definition get_user_by_login :: "db \<Rightarrow> string \<Rightarrow> exn + User option" where
  "get_user_by_login session login' =
     scalar_one_or_none (filter (\<lambda>u. login u = login') session)"

definition get_user_by_id :: "db \<Rightarrow> uuid \<Rightarrow> exn + User option" where
  "get_user_by_id session user_id =
     scalar_one_or_none (filter (\<lambda>u. id_col u = user_id) session)"

definition get_all_users :: "db \<Rightarrow> User list" where
  "get_all_users session = session"

text \<open>
  \<^verbatim>\<open>create_user\<close>. The hasher is passlib's (a parameter): it gives the hash, or the
  exception it raises (\<^verbatim>\<open>PasswordValueError\<close> for a password with a NUL byte). It runs
  at line 27, before the table is touched. \<open>new_id\<close> is the value
  \<^verbatim>\<open>uuid4()\<close> gives the row and \<open>server_now\<close> the value of the server default
  \<^verbatim>\<open>func.now()\<close>. The commit raises \<^verbatim>\<open>IntegrityError\<close> when the unique index on
  \<^verbatim>\<open>login\<close> or the primary key refuses the row. (The columns \<^verbatim>\<open>login\<close> and \<^verbatim>\<open>password\<close>
  are \<^verbatim>\<open>String(255)\<close>; the addresses \<^verbatim>\<open>UserCreate\<close> accepts and the hashes of bcrypt are
  shorter, so the length is not a case of the model.)
\<close>

definition create_user ::
  "(string \<Rightarrow> exn + string) \<Rightarrow> db \<Rightarrow> uuid \<Rightarrow> datetime \<Rightarrow> UserCreate \<Rightarrow> db \<times> (exn + User)" where
  "create_user hash_password session new_id server_now user_data =
     (case hash_password (c_password user_data) of
        Inl e \<Rightarrow> (session, Inl e)
      | Inr hashed_password \<Rightarrow>
          (let user = \<lparr>id_col = new_id, created_at = server_now, login = c_login user_data,
                  password = hashed_password, project_id = c_project_id user_data,
                  env = Environment_value (c_env user_data),
                  domain = DomainType_value (c_domain user_data), locktime = None\<rparr>
           in if login user \<in> set (map login session) \<or> id_col user \<in> set (map id_col session)
              then (session, Inl IntegrityError)
              else (session @ [user], Inr user)))"

text \<open>
  The commit of a changed \<^verbatim>\<open>locktime\<close> is the statement
  \<^verbatim>\<open>UPDATE users SET locktime = ? WHERE id = ?\<close>; \<^verbatim>\<open>session.refresh\<close> reads the row
  back by its primary key and raises when it is not there.
\<close>

definition update_locktime :: "db \<Rightarrow> uuid \<Rightarrow> datetime option \<Rightarrow> db" where
  "update_locktime session user_id t =
     map (\<lambda>u. if id_col u = user_id then u\<lparr>locktime := t\<rparr> else u) session"

definition refresh :: "db \<Rightarrow> User \<Rightarrow> exn + User" where
  "refresh session user =
     (case filter (\<lambda>u. id_col u = id_col user) session of
        [] \<Rightarrow> Inl InvalidRequestError
      | [r] \<Rightarrow> Inr r
      | _ \<Rightarrow> Inl MultipleResultsFound)"

text \<open>
  \<^verbatim>\<open>datetime.utcnow()\<close> is a naive \<^verbatim>\<open>datetime\<close>: the reading of the UTC clock, with no zone;
  \<open>utcnow\<close> is the instant it reads. The column \<^verbatim>\<open>locktime\<close> is \<^verbatim>\<open>DateTime(timezone=True)\<close>,
  and the driver of the configured store (asyncpg) takes a naive value bound to it for
  local time. So the instant the commit stores, and \<^verbatim>\<open>refresh\<close> reads back, is the reading
  less \<open>utcoffset\<close>, the offset of the zone of the process from UTC (0 where the process
  runs in UTC).
\<close>

definition naive_as_local :: "timedelta \<Rightarrow> datetime \<Rightarrow> datetime" where
  "naive_as_local utcoffset t = t - utcoffset"

definition acquire_lock ::
  "timedelta \<Rightarrow> db \<Rightarrow> datetime \<Rightarrow> uuid \<Rightarrow> db \<times> (exn + User option)" where
  "acquire_lock utcoffset session utcnow user_id =
     (case get_user_by_id session user_id of
        Inl e \<Rightarrow> (session, Inl e)
      | Inr None \<Rightarrow> (session, Inr None)
      | Inr (Some user) \<Rightarrow>
          if locktime user \<noteq> None then (session, Inr None)
          else
            (let session' =
               update_locktime session (id_col user) (Some (naive_as_local utcoffset utcnow))
             in (session', map_sum id Some (refresh session' user))))"

definition release_lock :: "db \<Rightarrow> uuid \<Rightarrow> db \<times> (exn + User option)" where
  "release_lock session user_id =
     (case get_user_by_id session user_id of
        Inl e \<Rightarrow> (session, Inl e)
      | Inr None \<Rightarrow> (session, Inr None)
      | Inr (Some user) \<Rightarrow>
          (let session' = update_locktime session (id_col user) None
           in (session', map_sum id Some (refresh session' user))))"

section \<open>The auth gate (app/users/auth.py)\<close>

text \<open>
  A token's payload is a dictionary of claims: strings, \<^verbatim>\<open>datetime\<close> values, and the
  whole seconds since the epoch that a token carries for a time. The signer and the
  verifier are jose's (parameters): \<open>jwt_decode\<close> gives the payload, or \<open>None\<close> where
  \<^verbatim>\<open>jwt.decode\<close> raises \<^verbatim>\<open>JWTError\<close>.
\<close>

datatype claim = Str string | Time datetime | IntDate int

type_synonym payload = "string \<rightharpoonup> claim"

text \<open>
  \<^verbatim>\<open>datetime + timedelta\<close> raises \<^verbatim>\<open>OverflowError\<close> outside the years 1 to 9999.
\<close>

definition datetime_min :: datetime where
  "datetime_min = - 62135596800000000"

definition datetime_max :: datetime where
  "datetime_max = 253402300799999999"

definition datetime_add :: "datetime \<Rightarrow> timedelta \<Rightarrow> exn + datetime" where
  "datetime_add t d =
     (if datetime_min \<le> t + d \<and> t + d \<le> datetime_max then Inr (t + d) else Inl OverflowError)"

definition timedelta_minutes :: "int \<Rightarrow> timedelta" where
  "timedelta_minutes m = m * 60000000"

text \<open>
  The dictionary \<^verbatim>\<open>to_encode\<close> that \<^verbatim>\<open>create_access_token\<close> hands to \<^verbatim>\<open>jwt.encode\<close>; \<open>now\<close>
  is the value of \<^verbatim>\<open>datetime.now(timezone.utc)\<close>. The test \<^verbatim>\<open>if expires_delta:\<close> is
  Python's truth value: \<^verbatim>\<open>None\<close> and the zero \<^verbatim>\<open>timedelta\<close> are both false.
\<close>

definition to_encode :: "datetime \<Rightarrow> payload \<Rightarrow> timedelta option \<Rightarrow> exn + payload" where
  "to_encode now data expires_delta =
     (case (case expires_delta of
              Some d \<Rightarrow>
                if d \<noteq> 0 then datetime_add now d
                else datetime_add now (timedelta_minutes (ACCESS_TOKEN_EXPIRE_MINUTES settings))
            | None \<Rightarrow>
                datetime_add now (timedelta_minutes (ACCESS_TOKEN_EXPIRE_MINUTES settings))) of
        Inl e \<Rightarrow> Inl e
      | Inr expire \<Rightarrow> Inr (data(''exp'' \<mapsto> Time expire)))"

text \<open>
  \<^verbatim>\<open>jwt.encode\<close> first turns a \<^verbatim>\<open>datetime\<close> under \<^verbatim>\<open>exp\<close>, \<^verbatim>\<open>iat\<close> or \<^verbatim>\<open>nbf\<close> into whole seconds
  since the epoch (\<^verbatim>\<open>timegm\<close> of its \<^verbatim>\<open>utctimetuple\<close>, which has no microseconds), then
  serialises and signs the claims; that last part is the parameter \<open>sign\<close>.
\<close>

definition intdate :: "datetime \<Rightarrow> int" where
  "intdate t = t div 1000000"

definition jwt_claims :: "payload \<Rightarrow> payload" where
  "jwt_claims claims =
     (\<lambda>k. if k = ''exp'' \<or> k = ''iat'' \<or> k = ''nbf''
          then (case claims k of Some (Time t) \<Rightarrow> Some (IntDate (intdate t)) | v \<Rightarrow> v)
          else claims k)"

definition jwt_encode ::
  "(payload \<Rightarrow> string \<Rightarrow> string \<Rightarrow> string) \<Rightarrow> payload \<Rightarrow> string \<Rightarrow> string \<Rightarrow> string" where
  "jwt_encode sign claims key algorithm = sign (jwt_claims claims) key algorithm"

definition create_access_token ::
  "(payload \<Rightarrow> string \<Rightarrow> string \<Rightarrow> string) \<Rightarrow> datetime \<Rightarrow> payload \<Rightarrow> timedelta option
     \<Rightarrow> exn + string" where
  "create_access_token sign now data expires_delta =
     map_sum id (\<lambda>claims. jwt_encode sign claims (SECRET_KEY settings) (ALGORITHM settings))
       (to_encode now data expires_delta)"

text \<open>
  \<^verbatim>\<open>TokenData(login=login)\<close> validates its field as an \<^verbatim>\<open>EmailStr\<close>: pydantic's validator
  (a parameter) gives the normalised address, or \<open>None\<close> where it raises
  \<^verbatim>\<open>ValidationError\<close>. That exception is not a \<^verbatim>\<open>JWTError\<close>, so \<^verbatim>\<open>decode_access_token\<close>
  lets it through.
\<close>

definition decode_access_token ::
  "(string \<Rightarrow> string \<Rightarrow> string \<Rightarrow> payload option) \<Rightarrow> (string \<Rightarrow> string option) \<Rightarrow> string
     \<Rightarrow> exn + TokenData option" where
  "decode_access_token jwt_decode validate_email token =
     (case jwt_decode token (SECRET_KEY settings) (ALGORITHM settings) of
        None \<Rightarrow> Inr None
      | Some payload \<Rightarrow>
          (case payload ''sub'' of
             None \<Rightarrow> Inr None
           | Some (Str login') \<Rightarrow>
               (case validate_email login' of
                  None \<Rightarrow> Inl ValidationError
                | Some email \<Rightarrow> Inr (Some \<lparr>td_login = Some email\<rparr>))
           | Some other \<Rightarrow> Inl ValidationError))"

definition credentials_exception :: exn where
  "credentials_exception =
     HTTPException 401 ''Could not validate credentials'' [(''WWW-Authenticate'', ''Bearer'')]"

definition get_current_user ::
  "(string \<Rightarrow> string \<Rightarrow> string \<Rightarrow> payload option) \<Rightarrow> (string \<Rightarrow> string option) \<Rightarrow> db \<Rightarrow> string
     \<Rightarrow> exn + User" where
  "get_current_user jwt_decode validate_email session token =
     (case decode_access_token jwt_decode validate_email token of
        Inl e \<Rightarrow> Inl e
      | Inr None \<Rightarrow> Inl credentials_exception
      | Inr (Some token_data) \<Rightarrow>
          (case td_login token_data of
             None \<Rightarrow> Inl credentials_exception
           | Some login' \<Rightarrow>
               (case get_user_by_login session login' of
                  Inl e \<Rightarrow> Inl e
                | Inr None \<Rightarrow> Inl credentials_exception
                | Inr (Some user) \<Rightarrow> Inr user)))"

text \<open>
  The check of a password against a hash is passlib's (a parameter): it answers, or
  raises (\<^verbatim>\<open>PasswordValueError\<close> for a password with a NUL byte).
\<close>

definition authenticate_user ::
  "(string \<Rightarrow> string \<Rightarrow> exn + bool) \<Rightarrow> db \<Rightarrow> string \<Rightarrow> string \<Rightarrow> exn + User option" where
  "authenticate_user verify_password session login' password' =
     (case get_user_by_login session login' of
        Inl e \<Rightarrow> Inl e
      | Inr None \<Rightarrow> Inr None
      | Inr (Some user) \<Rightarrow>
          (case verify_password password' (password user) of
             Inl e \<Rightarrow> Inl e
           | Inr matches \<Rightarrow> if \<not> matches then Inr None else Inr (Some user)))"

section \<open>The handlers (app/users/router.py)\<close>

text \<open>
  Each handler takes what its Python signature takes, the dependencies resolved;
  \<open>request_user_id\<close> is \<^verbatim>\<open>request.user_id\<close>.
\<close>

definition register_user ::
  "(string \<Rightarrow> exn + string) \<Rightarrow> db \<Rightarrow> uuid \<Rightarrow> datetime \<Rightarrow> UserCreate \<Rightarrow> db \<times> (exn + User)" where
  "register_user hash_password session new_id server_now user_data =
     (case create_user hash_password session new_id server_now user_data of
        (session', Inl IntegrityError) \<Rightarrow>
          (session', Inl (HTTPException 400 ''User with this email already exists'' []))
      | (session', r) \<Rightarrow> (session', r))"

definition login_handler ::
  "(string \<Rightarrow> string \<Rightarrow> exn + bool) \<Rightarrow> (payload \<Rightarrow> string \<Rightarrow> string \<Rightarrow> string) \<Rightarrow> datetime
     \<Rightarrow> db \<Rightarrow> string \<Rightarrow> string \<Rightarrow> exn + Token" where
  "login_handler verify_password sign now session login' password' =
     (case authenticate_user verify_password session login' password' of
        Inl e \<Rightarrow> Inl e
      | Inr None \<Rightarrow>
          Inl (HTTPException 401 ''Incorrect email or password''
                 [(''WWW-Authenticate'', ''Bearer'')])
      | Inr (Some user) \<Rightarrow>
          map_sum id (\<lambda>t. \<lparr>access_token = t, token_type = ''bearer''\<rparr>)
            (create_access_token sign now [''sub'' \<mapsto> Str (login user)] None))"

definition get_current_user_info :: "User \<Rightarrow> exn + User" where
  "get_current_user_info current_user = Inr current_user"

definition get_users :: "db \<Rightarrow> User \<Rightarrow> exn + User list" where
  "get_users session current_user = Inr (get_all_users session)"

definition acquire_user_lock ::
  "timedelta \<Rightarrow> db \<Rightarrow> datetime \<Rightarrow> uuid \<Rightarrow> User \<Rightarrow> db \<times> (exn + User)" where
  "acquire_user_lock utcoffset session utcnow request_user_id current_user =
     (case acquire_lock utcoffset session utcnow request_user_id of
        (session', Inl e) \<Rightarrow> (session', Inl e)
      | (session', Inr (Some user)) \<Rightarrow> (session', Inr user)
      | (session', Inr None) \<Rightarrow>
          (case get_user_by_id session' request_user_id of
             Inl e \<Rightarrow> (session', Inl e)
           | Inr None \<Rightarrow> (session', Inl (HTTPException 404 ''User not found'' []))
           | Inr (Some existing_user) \<Rightarrow>
               (session', Inl (HTTPException 423 ''User is already locked by another test'' []))))"

definition release_user_lock :: "db \<Rightarrow> uuid \<Rightarrow> User \<Rightarrow> db \<times> (exn + User)" where
  "release_user_lock session request_user_id current_user =
     (case release_lock session request_user_id of
        (session', Inl e) \<Rightarrow> (session', Inl e)
      | (session', Inr (Some user)) \<Rightarrow> (session', Inr user)
      | (session', Inr None) \<Rightarrow> (session', Inl (HTTPException 404 ''User not found'' [])))"

subsection \<open>What the routes answer\<close>

text \<open>
  The decorator of a route fixes the status code of a normal return and the
  \<^verbatim>\<open>response_model\<close> that serialises it. \<^verbatim>\<open>UserResponse\<close> is built with
  \<^verbatim>\<open>from_attributes\<close>: each of its fields is read from the attribute of the same name.
  An \<^verbatim>\<open>HTTPException\<close> answers with its own status and detail, any other exception is
  the server error 500.
\<close>

datatype http_body =
    AccountBody UserResponse
  | AccountsBody "UserResponse list"
  | TokenBody Token
  | DetailBody string

definition UserResponse_from_attributes :: "User \<Rightarrow> UserResponse" where
  "UserResponse_from_attributes user =
     \<lparr>r_id = id_col user, r_created_at = created_at user, r_login = login user,
      r_project_id = project_id user, r_env = env user, r_domain = domain user,
      r_locktime = locktime user\<rparr>"

definition answer :: "nat \<Rightarrow> ('a \<Rightarrow> http_body) \<Rightarrow> exn + 'a \<Rightarrow> nat \<times> http_body" where
  "answer status_code response_model r =
     (case r of
        Inr v \<Rightarrow> (status_code, response_model v)
      | Inl (HTTPException status' detail headers) \<Rightarrow> (status', DetailBody detail)
      | Inl _ \<Rightarrow> (500, DetailBody ''Internal Server Error''))"

definition account_body :: "User \<Rightarrow> http_body" where
  "account_body user = AccountBody (UserResponse_from_attributes user)"

definition accounts_body :: "User list \<Rightarrow> http_body" where
  "accounts_body users = AccountsBody (map UserResponse_from_attributes users)"

definition post_register ::
  "(string \<Rightarrow> exn + string) \<Rightarrow> db \<Rightarrow> uuid \<Rightarrow> datetime \<Rightarrow> UserCreate \<Rightarrow> db \<times> nat \<times> http_body" where
  "post_register hash_password session new_id server_now user_data =
     apsnd (answer 201 account_body)
       (register_user hash_password session new_id server_now user_data)"

definition post_login ::
  "(string \<Rightarrow> string \<Rightarrow> exn + bool) \<Rightarrow> (payload \<Rightarrow> string \<Rightarrow> string \<Rightarrow> string) \<Rightarrow> datetime
     \<Rightarrow> db \<Rightarrow> string \<Rightarrow> string \<Rightarrow> nat \<times> http_body" where
  "post_login verify_password sign now session login' password' =
     answer 200 TokenBody (login_handler verify_password sign now session login' password')"

definition get_users_me :: "User \<Rightarrow> nat \<times> http_body" where
  "get_users_me current_user = answer 200 account_body (get_current_user_info current_user)"

definition get_users_route :: "db \<Rightarrow> User \<Rightarrow> nat \<times> http_body" where
  "get_users_route session current_user =
     answer 200 accounts_body (get_users session current_user)"

definition post_users_acquire ::
  "timedelta \<Rightarrow> db \<Rightarrow> datetime \<Rightarrow> uuid \<Rightarrow> User \<Rightarrow> db \<times> nat \<times> http_body" where
  "post_users_acquire utcoffset session utcnow request_user_id current_user =
     apsnd (answer 200 account_body)
       (acquire_user_lock utcoffset session utcnow request_user_id current_user)"

definition post_users_release :: "db \<Rightarrow> uuid \<Rightarrow> User \<Rightarrow> db \<times> nat \<times> http_body" where
  "post_users_release session request_user_id current_user =
     apsnd (answer 200 account_body) (release_user_lock session request_user_id current_user)"

section \<open>Notions of the properties\<close>

text \<open>
  What the schema of \<^verbatim>\<open>users\<close> guarantees of every state: \<^verbatim>\<open>id\<close> is the primary key and
  \<^verbatim>\<open>login\<close> has a unique index.
\<close>

definition wf_db :: "db \<Rightarrow> bool" where
  "wf_db session = (distinct (map id_col session) \<and> distinct (map login session))"

text \<open>The writes of the service, and the states they reach from the empty table.\<close>

datatype operation =
    Create "string \<Rightarrow> exn + string" uuid datetime UserCreate
  | Acquire timedelta datetime uuid
  | Release uuid

fun apply_operation :: "operation \<Rightarrow> db \<Rightarrow> db" where
  "apply_operation (Create hash_password new_id server_now user_data) session =
     fst (create_user hash_password session new_id server_now user_data)"
| "apply_operation (Acquire utcoffset utcnow user_id) session =
     fst (acquire_lock utcoffset session utcnow user_id)"
| "apply_operation (Release user_id) session = fst (release_lock session user_id)"

fun run_operations :: "operation list \<Rightarrow> db \<Rightarrow> db" where
  "run_operations [] session = session"
| "run_operations (operation # operations) session =
     run_operations operations (apply_operation operation session)"

text \<open>The fields of a row other than \<^verbatim>\<open>locktime\<close>.\<close>

definition immutable_fields ::
  "User \<Rightarrow> uuid \<times> datetime \<times> string \<times> string \<times> uuid \<times> string \<times> string" where
  "immutable_fields u =
     (id_col u, created_at u, login u, password u, project_id u, env u, domain u)"

text \<open>The same table with other credential hashes: row \<open>i\<close> gets the hash \<open>h i\<close>.\<close>

definition rehash :: "(uuid \<Rightarrow> string) \<Rightarrow> db \<Rightarrow> db" where
  "rehash h session = map (\<lambda>u. u\<lparr>password := h (id_col u)\<rparr>) session"

text \<open>
  The claims a token carries: what \<^verbatim>\<open>jwt.encode\<close> serialises and signs for the dictionary
  of \<^verbatim>\<open>create_access_token\<close>.
\<close>

definition signed_claims :: "datetime \<Rightarrow> payload \<Rightarrow> timedelta option \<Rightarrow> exn + payload" where
  "signed_claims now data expires_delta = map_sum id jwt_claims (to_encode now data expires_delta)"

subsection \<open>Requests that run at the same time\<close>

text \<open>
  \<^verbatim>\<open>acquire_lock\<close> gives control away at each \<^verbatim>\<open>await\<close>: after the \<^verbatim>\<open>SELECT\<close> of
  \<^verbatim>\<open>get_user_by_id\<close> (lines 103 to 112 then run on the object the request's own session
  loaded), after the commit (line 113) and after the refresh (line 114). A request is
  at one of these points; a step takes it to the next, on the table as it is then. The
  object a request has loaded holds the naive reading until the refresh.
\<close>

datatype acquire_pc =
    Start
  | Loaded User
  | Committed User
  | Returned "exn + User option"

fun acquire_step ::
  "timedelta \<Rightarrow> datetime \<Rightarrow> uuid \<Rightarrow> db \<Rightarrow> acquire_pc \<Rightarrow> db \<times> acquire_pc" where
  "acquire_step utcoffset utcnow user_id session Start =
     (case get_user_by_id session user_id of
        Inl e \<Rightarrow> (session, Returned (Inl e))
      | Inr None \<Rightarrow> (session, Returned (Inr None))
      | Inr (Some user) \<Rightarrow>
          if locktime user \<noteq> None then (session, Returned (Inr None))
          else (session, Loaded (user\<lparr>locktime := Some utcnow\<rparr>)))"
| "acquire_step utcoffset utcnow user_id session (Loaded user) =
     (update_locktime session (id_col user)
        (map_option (naive_as_local utcoffset) (locktime user)), Committed user)"
| "acquire_step utcoffset utcnow user_id session (Committed user) =
     (session, Returned (map_sum id Some (refresh session user)))"
| "acquire_step utcoffset utcnow user_id session (Returned r) = (session, Returned r)"

text \<open>
  Two requests \<open>(utcnow, user_id)\<close> of one process and a schedule: \<open>False\<close> lets the
  first request take its next step, \<open>True\<close> the second.
\<close>

fun interleave ::
  "timedelta \<Rightarrow> bool list \<Rightarrow> datetime \<times> uuid \<Rightarrow> datetime \<times> uuid
     \<Rightarrow> db \<times> acquire_pc \<times> acquire_pc \<Rightarrow> db \<times> acquire_pc \<times> acquire_pc" where
  "interleave utcoffset [] a b config = config"
| "interleave utcoffset (False # schedule) a b (session, pa, pb) =
     (case acquire_step utcoffset (fst a) (snd a) session pa of
        (session', pa') \<Rightarrow> interleave utcoffset schedule a b (session', pa', pb))"
| "interleave utcoffset (True # schedule) a b (session, pa, pb) =
     (case acquire_step utcoffset (fst b) (snd b) session pb of
        (session', pb') \<Rightarrow> interleave utcoffset schedule a b (session', pa, pb'))"

subsection \<open>A table of two accounts\<close>

text \<open>The account of \<open>alice\<close> is free, the account of \<open>bob\<close> is locked.\<close>

definition alice :: User where
  "alice = \<lparr>id_col = 1, created_at = 1000, login = ''alice@x.com'', password = ''hash-of-alice'',
     project_id = 7, env = ''prod'', domain = ''regular'', locktime = None\<rparr>"

definition bob :: User where
  "bob = \<lparr>id_col = 2, created_at = 1500, login = ''bob@x.com'', password = ''hash-of-bob'',
     project_id = 7, env = ''stage'', domain = ''canary'', locktime = Some 1800\<rparr>"

text \<open>
  A registration request, and stand-ins for the external collaborators in the examples.
  The hasher and its check do what bcrypt under passlib does as far as the examples go:
  they refuse a password with a NUL byte and read the first 72 bytes of any other. The
  token verifier accepts one token, whose subject is not an address, and the address
  check asks for an \<open>@\<close>. \<open>dave\<close> asks for the login of \<open>alice\<close> with a password that holds
  a NUL byte; \<open>long_password\<close> and \<open>other_long_password\<close> are 72 equal bytes and a
  different last one.
\<close>

definition carol :: UserCreate where
  "carol = \<lparr>c_login = ''carol@x.com'', c_project_id = 7, c_env = PREPROD, c_domain = REGULAR,
     c_password = ''password123''\<rparr>"

definition nul :: char where
  "nul = CHR 0x00"

definition dave :: UserCreate where
  "dave = \<lparr>c_login = ''alice@x.com'', c_project_id = 7, c_env = STAGE, c_domain = CANARY,
     c_password = ''pass'' @ [nul] @ ''word123''\<rparr>"




definition example_hash :: "string \<Rightarrow> exn + string" where
  "example_hash p =
     (if nul \<in> set p then Inl PasswordValueError else Inr (''hash-of-'' @ take 72 p))"


definition example_jwt_decode :: "string \<Rightarrow> string \<Rightarrow> string \<Rightarrow> payload option" where
  "example_jwt_decode token key algorithm =
     (if token = ''signed-for-admin'' \<and> key = ''your-secret-key'' \<and> algorithm = ''HS256''
      then Some [''sub'' \<mapsto> Str ''admin''] else None)"

definition example_validate_email :: "string \<Rightarrow> string option" where
  "example_validate_email s = (if CHR ''@'' \<in> set s then Some s else None)"

section \<open>Facts about the store and the handlers\<close>

lemma filter_key_absent: "k \<notin> set (map f xs) \<Longrightarrow> filter (\<lambda>u. f u = k) xs = []"
  by (induction xs) auto

lemma filter_key_present:
  "distinct (map f xs) \<Longrightarrow> x \<in> set xs \<Longrightarrow> filter (\<lambda>u. f u = f x) xs = [x]"
proof (induction xs)
  case Nil
  then show ?case by simp
next
  case (Cons y ys)
  show ?case
  proof (cases "y = x")
    case True
    with Cons.prems have "f x \<notin> set (map f ys)" by simp
    then have "filter (\<lambda>u. f u = f x) ys = []" by (rule filter_key_absent)
    with True show ?thesis by simp
  next
    case False
    with Cons.prems have "x \<in> set ys" and "f y \<noteq> f x" and "distinct (map f ys)"
      by (auto simp: image_iff)
    with Cons.IH show ?thesis by simp
  qed
qed

lemma scalar_one_or_none_Some: "scalar_one_or_none rows = Inr (Some r) \<longleftrightarrow> rows = [r]"
  by (cases rows rule: scalar_one_or_none.cases) auto

lemma scalar_one_or_none_None: "scalar_one_or_none rows = Inr None \<longleftrightarrow> rows = []"
  by (cases rows rule: scalar_one_or_none.cases) auto

lemma get_user_by_id_absent:
  "user_id \<notin> set (map id_col session) \<Longrightarrow> get_user_by_id session user_id = Inr None"
  by (simp add: get_user_by_id_def filter_key_absent del: set_map)

lemma get_user_by_id_present:
  "distinct (map id_col session) \<Longrightarrow> u \<in> set session
     \<Longrightarrow> get_user_by_id session (id_col u) = Inr (Some u)"
  by (simp add: get_user_by_id_def filter_key_present)



lemma map_id_col_update_locktime [simp]:
  "map id_col (update_locktime session user_id t) = map id_col session"
  by (simp add: update_locktime_def)

lemma map_login_update_locktime [simp]:
  "map login (update_locktime session user_id t) = map login session"
  by (simp add: update_locktime_def)

lemma filter_id_update_locktime:
  "filter (\<lambda>r. id_col r = j) (update_locktime session user_id t) =
     update_locktime (filter (\<lambda>r. id_col r = j) session) user_id t"
  by (induction session) (auto simp: update_locktime_def)

lemma refresh_update_locktime:
  "filter (\<lambda>r. id_col r = user_id) session = [u] \<Longrightarrow> id_col user = user_id
     \<Longrightarrow> refresh (update_locktime session user_id t) user = Inr (u\<lparr>locktime := t\<rparr>)"
proof -
  assume rows: "filter (\<lambda>r. id_col r = user_id) session = [u]" and "id_col user = user_id"
  from rows have "u \<in> set (filter (\<lambda>r. id_col r = user_id) session)" by simp
  then have "id_col u = user_id" by simp
  with rows \<open>id_col user = user_id\<close> show ?thesis
    by (simp add: refresh_def filter_id_update_locktime) (simp add: update_locktime_def)
qed

lemma acquire_lock_absent:
  "filter (\<lambda>r. id_col r = user_id) session = []
     \<Longrightarrow> acquire_lock utcoffset session utcnow user_id = (session, Inr None)"
  by (simp add: acquire_lock_def get_user_by_id_def)

lemma acquire_lock_locked:
  "filter (\<lambda>r. id_col r = user_id) session = [u] \<Longrightarrow> locktime u \<noteq> None
     \<Longrightarrow> acquire_lock utcoffset session utcnow user_id = (session, Inr None)"
  by (simp add: acquire_lock_def get_user_by_id_def)

lemma filter_singleton_id: "filter (\<lambda>r. id_col r = user_id) session = [u] \<Longrightarrow> id_col u = user_id"
proof -
  assume "filter (\<lambda>r. id_col r = user_id) session = [u]"
  then have "u \<in> set (filter (\<lambda>r. id_col r = user_id) session)" by simp
  then show ?thesis by simp
qed

lemma acquire_lock_free:
  "filter (\<lambda>r. id_col r = user_id) session = [u] \<Longrightarrow> locktime u = None
     \<Longrightarrow> acquire_lock utcoffset session utcnow user_id =
           (update_locktime session user_id (Some (utcnow - utcoffset)),
            Inr (Some (u\<lparr>locktime := Some (utcnow - utcoffset)\<rparr>)))"
  by (frule filter_singleton_id)
     (simp add: acquire_lock_def get_user_by_id_def refresh_update_locktime naive_as_local_def)

lemma acquire_lock_many:
  "filter (\<lambda>r. id_col r = user_id) session = u # u' # us
     \<Longrightarrow> acquire_lock utcoffset session utcnow user_id = (session, Inl MultipleResultsFound)"
  by (simp add: acquire_lock_def get_user_by_id_def)

lemma release_lock_absent:
  "filter (\<lambda>r. id_col r = user_id) session = []
     \<Longrightarrow> release_lock session user_id = (session, Inr None)"
  by (simp add: release_lock_def get_user_by_id_def)

lemma release_lock_present:
  "filter (\<lambda>r. id_col r = user_id) session = [u]
     \<Longrightarrow> release_lock session user_id =
           (update_locktime session user_id None, Inr (Some (u\<lparr>locktime := None\<rparr>)))"
  by (frule filter_singleton_id)
     (simp add: release_lock_def get_user_by_id_def refresh_update_locktime)

lemma release_lock_many:
  "filter (\<lambda>r. id_col r = user_id) session = u # u' # us
     \<Longrightarrow> release_lock session user_id = (session, Inl MultipleResultsFound)"
  by (simp add: release_lock_def get_user_by_id_def)

lemma filter_id_cases:
  obtains (absent) "filter (\<lambda>r. id_col r = user_id) session = []"
  | (one) u where "filter (\<lambda>r. id_col r = user_id) session = [u]"
  | (many) u u' us where "filter (\<lambda>r. id_col r = user_id) session = u # u' # us"
  by (cases "filter (\<lambda>r. id_col r = user_id) session" rule: scalar_one_or_none.cases) auto

lemma acquire_lock_state:
  "fst (acquire_lock utcoffset session utcnow user_id) = session \<or>
   fst (acquire_lock utcoffset session utcnow user_id) =
     update_locktime session user_id (Some (utcnow - utcoffset))"
proof (cases user_id session rule: filter_id_cases)
  case absent
  then show ?thesis by (simp add: acquire_lock_absent)
next
  case (one u)
  then show ?thesis
    by (cases "locktime u = None") (simp_all add: acquire_lock_free acquire_lock_locked)
next
  case (many u u' us)
  then show ?thesis by (simp add: acquire_lock_many)
qed

lemma release_lock_state:
  "fst (release_lock session user_id) = session \<or>
   fst (release_lock session user_id) = update_locktime session user_id None"
proof (cases user_id session rule: filter_id_cases)
  case absent
  then show ?thesis by (simp add: release_lock_absent)
next
  case (one u)
  then show ?thesis by (simp add: release_lock_present)
next
  case (many u u' us)
  then show ?thesis by (simp add: release_lock_many)
qed

lemma immutable_fields_update_locktime [simp]:
  "map immutable_fields (update_locktime session user_id t) = map immutable_fields session"
  by (simp add: update_locktime_def immutable_fields_def)

lemma wf_db_update_locktime [simp]: "wf_db (update_locktime session user_id t) = wf_db session"
  by (simp add: wf_db_def)

lemma length_update_locktime [simp]: "length (update_locktime session user_id t) = length session"
  by (simp add: update_locktime_def)

lemma create_user_state:
  "fst (create_user hash_password session new_id server_now user_data) = session \<or>
   (\<exists>user. fst (create_user hash_password session new_id server_now user_data) = session @ [user]
      \<and> login user \<notin> set (map login session) \<and> id_col user \<notin> set (map id_col session))"
  by (simp add: create_user_def Let_def split: sum.split)

lemma wf_db_apply_operation: "wf_db session \<Longrightarrow> wf_db (apply_operation operation session)"
proof (cases operation)
  case (Create hash_password new_id server_now user_data)
  assume "wf_db session"
  with create_user_state [of hash_password session new_id server_now user_data] Create
  show ?thesis by (auto simp: wf_db_def)
next
  case (Acquire utcoffset utcnow user_id)
  assume "wf_db session"
  with acquire_lock_state [of utcoffset session utcnow user_id] Acquire show ?thesis by auto
next
  case (Release user_id)
  assume "wf_db session"
  with release_lock_state [of session user_id] Release show ?thesis by auto
qed

lemma wf_db_run_operations: "wf_db session \<Longrightarrow> wf_db (run_operations operations session)"
  by (induction operations arbitrary: session) (simp_all add: wf_db_apply_operation)

lemma wf_db_reachable: "wf_db (run_operations operations [])"
  by (rule wf_db_run_operations) (simp add: wf_db_def)

lemma frame_apply_operation:
  "length session \<le> length (apply_operation operation session) \<and>
   map immutable_fields (take (length session) (apply_operation operation session)) =
     map immutable_fields session"
proof (cases operation)
  case (Create hash_password new_id server_now user_data)
  with create_user_state [of hash_password session new_id server_now user_data]
  show ?thesis by auto
next
  case (Acquire utcoffset utcnow user_id)
  with acquire_lock_state [of utcoffset session utcnow user_id] show ?thesis by auto
next
  case (Release user_id)
  with release_lock_state [of session user_id] show ?thesis by auto
qed

lemma frame_run_operations:
  "length session \<le> length (run_operations operations session) \<and>
   map immutable_fields (take (length session) (run_operations operations session)) =
     map immutable_fields session"
proof (induction operations arbitrary: session)
  case Nil
  show ?case by simp
next
  case (Cons operation operations)
  let ?s = "apply_operation operation session"
  let ?r = "run_operations operations ?s"
  from frame_apply_operation [of session operation]
  have len: "length session \<le> length ?s"
    and step: "map immutable_fields (take (length session) ?s) = map immutable_fields session"
    by simp_all
  from Cons.IH [of ?s]
  have len': "length ?s \<le> length ?r"
    and rest: "map immutable_fields (take (length ?s) ?r) = map immutable_fields ?s"
    by simp_all
  have "map immutable_fields (take (length session) ?r) =
        take (length session) (map immutable_fields (take (length ?s) ?r))"
    using len by (simp add: take_map min_def)
  also have "\<dots> = map immutable_fields (take (length session) ?s)"
    by (simp add: rest take_map)
  finally show ?case using len len' step by simp
qed

lemma filter_id_of_member:
  "wf_db session \<Longrightarrow> u \<in> set session \<Longrightarrow> id_col u = user_id
     \<Longrightarrow> filter (\<lambda>r. id_col r = user_id) session = [u]"
  using filter_key_present [of id_col session u] by (auto simp: wf_db_def)

lemma filter_id_of_absent:
  "user_id \<notin> set (map id_col session) \<Longrightarrow> filter (\<lambda>r. id_col r = user_id) session = []"
  by (rule filter_key_absent)

lemma acquire_user_lock_absent:
  "filter (\<lambda>r. id_col r = user_id) session = []
     \<Longrightarrow> acquire_user_lock utcoffset session utcnow user_id cu =
           (session, Inl (HTTPException 404 ''User not found'' []))"
  by (simp add: acquire_user_lock_def acquire_lock_absent get_user_by_id_def)

lemma acquire_user_lock_locked:
  "filter (\<lambda>r. id_col r = user_id) session = [u] \<Longrightarrow> locktime u \<noteq> None
     \<Longrightarrow> acquire_user_lock utcoffset session utcnow user_id cu =
           (session, Inl (HTTPException 423 ''User is already locked by another test'' []))"
  by (simp add: acquire_user_lock_def acquire_lock_locked get_user_by_id_def)

lemma acquire_user_lock_free:
  "filter (\<lambda>r. id_col r = user_id) session = [u] \<Longrightarrow> locktime u = None
     \<Longrightarrow> acquire_user_lock utcoffset session utcnow user_id cu =
           (update_locktime session user_id (Some (utcnow - utcoffset)),
            Inr (u\<lparr>locktime := Some (utcnow - utcoffset)\<rparr>))"
  by (simp add: acquire_user_lock_def acquire_lock_free)

lemma acquire_user_lock_many:
  "filter (\<lambda>r. id_col r = user_id) session = u # u' # us
     \<Longrightarrow> acquire_user_lock utcoffset session utcnow user_id cu = (session, Inl MultipleResultsFound)"
  by (simp add: acquire_user_lock_def acquire_lock_many)

lemma release_user_lock_absent:
  "filter (\<lambda>r. id_col r = user_id) session = []
     \<Longrightarrow> release_user_lock session user_id cu =
           (session, Inl (HTTPException 404 ''User not found'' []))"
  by (simp add: release_user_lock_def release_lock_absent)

lemma release_user_lock_present:
  "filter (\<lambda>r. id_col r = user_id) session = [u]
     \<Longrightarrow> release_user_lock session user_id cu =
           (update_locktime session user_id None, Inr (u\<lparr>locktime := None\<rparr>))"
  by (simp add: release_user_lock_def release_lock_present)

lemma release_user_lock_many:
  "filter (\<lambda>r. id_col r = user_id) session = u # u' # us
     \<Longrightarrow> release_user_lock session user_id cu = (session, Inl MultipleResultsFound)"
  by (simp add: release_user_lock_def release_lock_many)

lemma update_locktime_same:
  "\<forall>u \<in> set session. id_col u = user_id \<longrightarrow> locktime u = t
     \<Longrightarrow> update_locktime session user_id t = session"
  by (induction session) (auto simp: update_locktime_def)

lemma update_locktime_free_row:
  "wf_db session \<Longrightarrow> u \<in> set session \<Longrightarrow> id_col u = user_id \<Longrightarrow> locktime u = t
     \<Longrightarrow> update_locktime session user_id t = session"
proof (rule update_locktime_same, intro ballI impI)
  fix r
  assume wf: "wf_db session" and u: "u \<in> set session" "id_col u = user_id" "locktime u = t"
    and r: "r \<in> set session" "id_col r = user_id"
  from wf u have "filter (\<lambda>r. id_col r = user_id) session = [u]" by (simp add: filter_id_of_member)
  moreover from r have "r \<in> set (filter (\<lambda>r. id_col r = user_id) session)" by simp
  ultimately have "r = u" by simp
  with u show "locktime r = t" by simp
qed

lemma wf_db_example: "wf_db [alice, bob]"
  by (simp add: wf_db_def alice_def bob_def)

lemma fst_acquire_user_lock:
  "fst (acquire_user_lock utcoffset session utcnow user_id current_user) =
     fst (acquire_lock utcoffset session utcnow user_id)"
proof (cases user_id session rule: filter_id_cases)
  case absent
  then show ?thesis by (simp add: acquire_lock_absent acquire_user_lock_absent)
next
  case (one u)
  then show ?thesis
    by (cases "locktime u = None")
       (simp_all add: acquire_lock_locked acquire_lock_free acquire_user_lock_free
          acquire_user_lock_locked)
next
  case (many u u' us)
  then show ?thesis by (simp add: acquire_lock_many acquire_user_lock_many)
qed

lemma fst_release_user_lock:
  "fst (release_user_lock session user_id current_user) = fst (release_lock session user_id)"
proof (cases user_id session rule: filter_id_cases)
  case absent
  then show ?thesis by (simp add: release_lock_absent release_user_lock_absent)
next
  case (one u)
  then show ?thesis by (simp add: release_lock_present release_user_lock_present)
next
  case (many u u' us)
  then show ?thesis by (simp add: release_lock_many release_user_lock_many)
qed


section \<open>C1: acquire under concurrent requests\<close>

lemma acquire_steps_sequential:
  "interleave utcoffset [False, False, False] (utcnow, user_id) b (session, Start, pb) =
     (fst (acquire_lock utcoffset session utcnow user_id),
      Returned (snd (acquire_lock utcoffset session utcnow user_id)), pb)"
proof (cases user_id session rule: filter_id_cases)
  case absent
  then show ?thesis by (simp add: acquire_lock_absent get_user_by_id_def)
next
  case (one u)
  from one have idu: "id_col u = user_id" by (rule filter_singleton_id)
  show ?thesis
  proof (cases "locktime u = None")
    case True
    with one idu show ?thesis
      by (simp add: acquire_lock_free get_user_by_id_def refresh_update_locktime
          naive_as_local_def)
  next
    case False
    with one show ?thesis by (simp add: acquire_lock_locked get_user_by_id_def)
  qed
next
  case (many u u' us)
  then show ?thesis by (simp add: acquire_lock_many get_user_by_id_def)
qed

lemma acquire_lock_twice:
  assumes "wf_db session"
    and "acquire_lock utcoffset session utcnow user_id = (session', Inr (Some user))"
  shows "acquire_lock utcoffset session' utcnow' user_id = (session', Inr None)"
proof (cases user_id session rule: filter_id_cases)
  case absent
  with assms(2) show ?thesis by (simp add: acquire_lock_absent)
next
  case (one u)
  show ?thesis
  proof (cases "locktime u = None")
    case True
    from acquire_lock_free [OF one True, of utcoffset utcnow] assms(2)
    have s': "session' = update_locktime session user_id (Some (utcnow - utcoffset))" by simp
    from one have "filter (\<lambda>r. id_col r = user_id) session' =
        [u\<lparr>locktime := Some (utcnow - utcoffset)\<rparr>]"
      using filter_singleton_id [OF one]
      by (simp add: s' filter_id_update_locktime) (simp add: update_locktime_def)
    then show ?thesis by (rule acquire_lock_locked) simp
  next
    case False
    with one assms(2) show ?thesis by (simp add: acquire_lock_locked)
  qed
next
  case (many u u' us)
  with assms(2) show ?thesis by (simp add: acquire_lock_many)
qed

lemma sequential_acquire_one_holder:
  "interleave 0 [False, False, False, True, True, True] (2000, 1) (2001, 1)
     ([alice, bob], Start, Start) =
   ([alice\<lparr>locktime := Some 2000\<rparr>, bob],
    Returned (Inr (Some (alice\<lparr>locktime := Some 2000\<rparr>))),
    Returned (Inr None))"
  by (simp add: get_user_by_id_def update_locktime_def refresh_def naive_as_local_def
      alice_def bob_def)

text \<open>
  C1 claims that concurrent acquire calls on one account behave as one atomic conditional
  update: exactly one caller succeeds, and no interleaving gives two lock holders.
  \<^verbatim>\<open>acquire_lock\<close> reads the row, tests \<^verbatim>\<open>locktime\<close> on the object it loaded and writes at
  the commit, with an \<^verbatim>\<open>await\<close> in between. Two requests for the free account of
  \<open>alice\<close>, each reading before the other commits, both pass the test, both commit and
  both return the account: two holders. Run one after the other, the steps of a request are \<open>acquire_lock\<close>, and a second
  request is then refused (the lemmas above): the defect needs the interleaving.
\<close>

theorem concurrent_acquire_two_holders:
  "interleave 0 [False, True, False, True, False, True] (2000, 1) (2001, 1)
     ([alice, bob], Start, Start) =
   ([alice\<lparr>locktime := Some 2001\<rparr>, bob],
    Returned (Inr (Some (alice\<lparr>locktime := Some 2001\<rparr>))),
    Returned (Inr (Some (alice\<lparr>locktime := Some 2001\<rparr>))))"
  by (simp add: get_user_by_id_def update_locktime_def refresh_def naive_as_local_def
      alice_def bob_def)

section \<open>C2: the three outcomes of acquire\<close>

text \<open>
  C2 claims that every acquire request ends in exactly one of three outcomes: 404 when
  no account has the id, 423 when the account is locked, and otherwise 200 with the
  account, its \<^verbatim>\<open>locktime\<close> set to the current time. On a table the schema allows
  (\<open>wf_db\<close>) the three outcomes are as claimed, and the answer of a success is spelled
  out field by field. Its lock time, and the one the table then holds, is the naive
  reading of the UTC clock taken for local time: the current time less the offset of the
  zone of the process. That is the current time in a process that runs in UTC, and
  not in any other: three hours east of UTC the answer carries a time three hours back.
\<close>

theorem acquire_three_outcomes:
  assumes "wf_db session"
  shows "(user_id \<notin> set (map id_col session) \<longrightarrow>
            post_users_acquire utcoffset session utcnow user_id current_user =
              (session, 404, DetailBody ''User not found''))
       \<and> (\<forall>u \<in> set session. id_col u = user_id \<and> locktime u \<noteq> None \<longrightarrow>
            post_users_acquire utcoffset session utcnow user_id current_user =
              (session, 423, DetailBody ''User is already locked by another test''))
       \<and> (\<forall>u \<in> set session. id_col u = user_id \<and> locktime u = None \<longrightarrow>
            post_users_acquire utcoffset session utcnow user_id current_user =
              (update_locktime session user_id (Some (utcnow - utcoffset)), 200,
               AccountBody \<lparr>r_id = user_id, r_created_at = created_at u, r_login = login u,
                 r_project_id = project_id u, r_env = env u, r_domain = domain u,
                 r_locktime = Some (utcnow - utcoffset)\<rparr>)
            \<and> get_user_by_id (update_locktime session user_id (Some (utcnow - utcoffset)))
                  user_id = Inr (Some (u\<lparr>locktime := Some (utcnow - utcoffset)\<rparr>)))
       \<and> fst (snd (post_users_acquire utcoffset session utcnow user_id current_user)) \<in> {200, 404, 423}"
proof (intro conjI impI ballI)
  assume "user_id \<notin> set (map id_col session)"
  then have "filter (\<lambda>r. id_col r = user_id) session = []" by (rule filter_id_of_absent)
  then show "post_users_acquire utcoffset session utcnow user_id current_user =
      (session, 404, DetailBody ''User not found'')"
    by (simp add: post_users_acquire_def acquire_user_lock_absent answer_def)
next
  fix u assume "u \<in> set session" and u: "id_col u = user_id \<and> locktime u \<noteq> None"
  with assms have "filter (\<lambda>r. id_col r = user_id) session = [u]"
    by (simp add: filter_id_of_member)
  with u show "post_users_acquire utcoffset session utcnow user_id current_user =
      (session, 423, DetailBody ''User is already locked by another test'')"
    by (simp add: post_users_acquire_def acquire_user_lock_locked answer_def)
next
  fix u assume "u \<in> set session" and u: "id_col u = user_id \<and> locktime u = None"
  with assms have rows: "filter (\<lambda>r. id_col r = user_id) session = [u]"
    by (simp add: filter_id_of_member)
  from rows u show "post_users_acquire utcoffset session utcnow user_id current_user =
      (update_locktime session user_id (Some (utcnow - utcoffset)), 200,
       AccountBody \<lparr>r_id = user_id, r_created_at = created_at u, r_login = login u,
         r_project_id = project_id u, r_env = env u, r_domain = domain u,
         r_locktime = Some (utcnow - utcoffset)\<rparr>)"
    by (simp add: post_users_acquire_def acquire_user_lock_free answer_def account_body_def
        UserResponse_from_attributes_def)
next
  fix u assume "u \<in> set session" and u: "id_col u = user_id \<and> locktime u = None"
  with assms have rows: "filter (\<lambda>r. id_col r = user_id) session = [u]"
    by (simp add: filter_id_of_member)
  from rows u
  show "get_user_by_id (update_locktime session user_id (Some (utcnow - utcoffset))) user_id =
      Inr (Some (u\<lparr>locktime := Some (utcnow - utcoffset)\<rparr>))"
    by (simp add: get_user_by_id_def filter_id_update_locktime) (simp add: update_locktime_def)
next
  show "fst (snd (post_users_acquire utcoffset session utcnow user_id current_user)) \<in> {200, 404, 423}"
  proof (cases user_id session rule: filter_id_cases)
    case absent
    then show ?thesis by (simp add: post_users_acquire_def acquire_user_lock_absent answer_def)
  next
    case (one u)
    then show ?thesis
      by (cases "locktime u = None")
         (simp_all add: post_users_acquire_def acquire_user_lock_free acquire_user_lock_locked
            answer_def)
  next
    case (many u u' us)
    then have "\<not> distinct (map id_col (filter (\<lambda>r. id_col r = user_id) session))"
    proof -
      from many have "u \<in> set (filter (\<lambda>r. id_col r = user_id) session)"
        and "u' \<in> set (filter (\<lambda>r. id_col r = user_id) session)" by simp_all
      then have "id_col u = id_col u'" by simp
      with many show ?thesis by simp
    qed
    moreover from assms have "distinct (map id_col (filter (\<lambda>r. id_col r = user_id) session))"
      by (simp add: wf_db_def distinct_map_filter)
    ultimately show ?thesis by simp
  qed
qed

theorem acquire_three_outcomes_witness:
  "post_users_acquire 10800000000 [alice, bob] 1700000000000000 3 alice =
     ([alice, bob], 404, DetailBody ''User not found'')
   \<and> post_users_acquire 10800000000 [alice, bob] 1700000000000000 2 alice =
       ([alice, bob], 423, DetailBody ''User is already locked by another test'')
   \<and> post_users_acquire 10800000000 [alice, bob] 1700000000000000 1 alice =
       ([alice\<lparr>locktime := Some 1699989200000000\<rparr>, bob], 200,
        AccountBody \<lparr>r_id = 1, r_created_at = 1000, r_login = ''alice@x.com'',
          r_project_id = 7, r_env = ''prod'', r_domain = ''regular'',
          r_locktime = Some 1699989200000000\<rparr>)
   \<and> post_users_acquire 0 [alice, bob] 1700000000000000 1 alice =
       ([alice\<lparr>locktime := Some 1700000000000000\<rparr>, bob], 200,
        AccountBody \<lparr>r_id = 1, r_created_at = 1000, r_login = ''alice@x.com'',
          r_project_id = 7, r_env = ''prod'', r_domain = ''regular'',
          r_locktime = Some 1700000000000000\<rparr>)"
proof -
  have a: "(3::uuid) \<notin> set (map id_col [alice, bob])"
    and b: "bob \<in> set [alice, bob]" "id_col bob = 2 \<and> locktime bob \<noteq> None"
    and c: "alice \<in> set [alice, bob]" "id_col alice = 1 \<and> locktime alice = None"
    and d: "update_locktime [alice, bob] 1 (Some (1700000000000000 - 10800000000)) =
        [alice\<lparr>locktime := Some 1699989200000000\<rparr>, bob]"
      "update_locktime [alice, bob] 1 (Some (1700000000000000 - 0)) =
        [alice\<lparr>locktime := Some 1700000000000000\<rparr>, bob]"
    and e: "created_at alice = 1000" "login alice = ''alice@x.com''" "project_id alice = 7"
      "env alice = ''prod''" "domain alice = ''regular''"
      "(1700000000000000::int) - 10800000000 = 1699989200000000"
    by (simp_all add: alice_def bob_def update_locktime_def)
  from acquire_three_outcomes [OF wf_db_example, of 3 10800000000 1700000000000000 alice] a
  have "post_users_acquire 10800000000 [alice, bob] 1700000000000000 3 alice =
      ([alice, bob], 404, DetailBody ''User not found'')" by blast
  moreover
  from acquire_three_outcomes [OF wf_db_example, of 2 10800000000 1700000000000000 alice] b
  have "post_users_acquire 10800000000 [alice, bob] 1700000000000000 2 alice =
      ([alice, bob], 423, DetailBody ''User is already locked by another test'')" by blast
  moreover
  from acquire_three_outcomes [OF wf_db_example, of 1 10800000000 1700000000000000 alice] c
  have "post_users_acquire 10800000000 [alice, bob] 1700000000000000 1 alice =
      (update_locktime [alice, bob] 1 (Some (1700000000000000 - 10800000000)), 200,
       AccountBody \<lparr>r_id = 1, r_created_at = created_at alice, r_login = login alice,
         r_project_id = project_id alice, r_env = env alice, r_domain = domain alice,
         r_locktime = Some (1700000000000000 - 10800000000)\<rparr>)" by blast
  moreover
  from acquire_three_outcomes [OF wf_db_example, of 1 0 1700000000000000 alice] c
  have "post_users_acquire 0 [alice, bob] 1700000000000000 1 alice =
      (update_locktime [alice, bob] 1 (Some (1700000000000000 - 0)), 200,
       AccountBody \<lparr>r_id = 1, r_created_at = created_at alice, r_login = login alice,
         r_project_id = project_id alice, r_env = env alice, r_domain = domain alice,
         r_locktime = Some (1700000000000000 - 0)\<rparr>)" by blast
  ultimately show ?thesis using d e by simp
qed

section \<open>C3: release is idempotent\<close>

text \<open>
  C3: for every existing account release succeeds, whether the account is locked or
  free, clears \<^verbatim>\<open>locktime\<close> and returns the account; on a free account the table does not
  change. The only failure is 404 for an id no account has, and a second release gives
  what the first gave.
\<close>

theorem release_idempotent:
  assumes "wf_db session"
  shows "(\<forall>u \<in> set session. id_col u = user_id \<longrightarrow>
            release_user_lock session user_id current_user =
              (update_locktime session user_id None, Inr (u\<lparr>locktime := None\<rparr>)))
       \<and> (\<forall>u \<in> set session. id_col u = user_id \<and> locktime u = None \<longrightarrow>
            release_user_lock session user_id current_user = (session, Inr u))
       \<and> (user_id \<notin> set (map id_col session) \<longrightarrow>
            release_user_lock session user_id current_user =
              (session, Inl (HTTPException 404 ''User not found'' [])))
       \<and> isl (snd (release_user_lock session user_id current_user)) =
            (user_id \<notin> set (map id_col session))
       \<and> release_user_lock (fst (release_user_lock session user_id current_user)) user_id
            current_user = release_user_lock session user_id current_user"
proof -
  have present: "release_user_lock session user_id current_user =
      (update_locktime session user_id None, Inr (u\<lparr>locktime := None\<rparr>))"
    if "u \<in> set session" "id_col u = user_id" for u
    using that assms by (simp add: filter_id_of_member release_user_lock_present)
  have free: "release_user_lock session user_id current_user = (session, Inr u)"
    if "u \<in> set session" "id_col u = user_id" "locktime u = None" for u
  proof -
    from that assms have "update_locktime session user_id None = session"
      by (simp add: update_locktime_free_row)
    moreover from that have "u\<lparr>locktime := None\<rparr> = u" by simp
    ultimately show ?thesis using present [OF that(1,2)] by simp
  qed
  have absent: "release_user_lock session user_id current_user =
      (session, Inl (HTTPException 404 ''User not found'' []))"
    if "user_id \<notin> set (map id_col session)"
    using that by (simp add: filter_id_of_absent release_user_lock_absent del: set_map)
  have fails: "isl (snd (release_user_lock session user_id current_user)) =
      (user_id \<notin> set (map id_col session))"
  proof (cases "user_id \<in> set (map id_col session)")
    case True
    then obtain u where "u \<in> set session" "id_col u = user_id" by auto
    with present [of u] True show ?thesis by simp
  next
    case False
    with absent show ?thesis by simp
  qed
  have twice: "release_user_lock (fst (release_user_lock session user_id current_user)) user_id
      current_user = release_user_lock session user_id current_user"
  proof (cases "user_id \<in> set (map id_col session)")
    case True
    then obtain u where u: "u \<in> set session" "id_col u = user_id" by auto
    let ?s = "update_locktime session user_id None"
    let ?u = "u\<lparr>locktime := None\<rparr>"
    from u have mem: "?u \<in> set ?s" by (simp add: update_locktime_def image_iff) (rule bexI [of _ u], simp_all)
    have wf: "wf_db ?s" using assms by simp
    have idu: "id_col ?u = user_id" using u by simp
    from wf mem idu have "filter (\<lambda>r. id_col r = user_id) ?s = [?u]"
      by (rule filter_id_of_member)
    then have "release_user_lock ?s user_id current_user =
        (update_locktime ?s user_id None, Inr (?u\<lparr>locktime := None\<rparr>))"
      by (rule release_user_lock_present)
    moreover have "update_locktime ?s user_id None = ?s"
      by (simp add: update_locktime_def)
    ultimately have "release_user_lock ?s user_id current_user = (?s, Inr ?u)"
      by simp
    with present [OF u] show ?thesis by simp
  next
    case False
    with absent show ?thesis by simp
  qed
  show ?thesis
  proof (intro conjI ballI impI)
    fix u assume "u \<in> set session" "id_col u = user_id"
    then show "release_user_lock session user_id current_user =
        (update_locktime session user_id None, Inr (u\<lparr>locktime := None\<rparr>))"
      by (rule present)
  next
    fix u assume "u \<in> set session" "id_col u = user_id \<and> locktime u = None"
    then show "release_user_lock session user_id current_user = (session, Inr u)"
      by (simp add: free)
  next
    assume "user_id \<notin> set (map id_col session)"
    then show "release_user_lock session user_id current_user =
        (session, Inl (HTTPException 404 ''User not found'' []))"
      by (rule absent)
  next
    show "isl (snd (release_user_lock session user_id current_user)) =
        (user_id \<notin> set (map id_col session))"
      by (rule fails)
  next
    show "release_user_lock (fst (release_user_lock session user_id current_user)) user_id
        current_user = release_user_lock session user_id current_user"
      by (rule twice)
  qed
qed

theorem release_idempotent_witness:
  "release_user_lock [alice, bob] 2 alice = ([alice, bob\<lparr>locktime := None\<rparr>], Inr (bob\<lparr>locktime := None\<rparr>))
   \<and> release_user_lock [alice, bob] 1 alice = ([alice, bob], Inr alice)
   \<and> release_user_lock [alice, bob] 3 alice =
       ([alice, bob], Inl (HTTPException 404 ''User not found'' []))"
proof -
  have a: "(3::uuid) \<notin> set (map id_col [alice, bob])"
    and b: "bob \<in> set [alice, bob]" "id_col bob = 2"
    and c: "alice \<in> set [alice, bob]" "id_col alice = 1 \<and> locktime alice = None"
    and d: "update_locktime [alice, bob] 2 None = [alice, bob\<lparr>locktime := None\<rparr>]"
    by (simp_all add: alice_def bob_def update_locktime_def)
  from release_idempotent [OF wf_db_example, of 2 alice] b d
  have "release_user_lock [alice, bob] 2 alice =
      ([alice, bob\<lparr>locktime := None\<rparr>], Inr (bob\<lparr>locktime := None\<rparr>))" by metis
  moreover from release_idempotent [OF wf_db_example, of 1 alice] c
  have "release_user_lock [alice, bob] 1 alice = ([alice, bob], Inr alice)" by blast
  moreover from release_idempotent [OF wf_db_example, of 3 alice] a
  have "release_user_lock [alice, bob] 3 alice =
       ([alice, bob], Inl (HTTPException 404 ''User not found'' []))" by blast
  ultimately show ?thesis by simp
qed

section \<open>C4: registration and authentication\<close>







section \<open>C5: logins are unique\<close>

lemma length_filter_key_le_1:
  "distinct (map f xs) \<Longrightarrow> length (filter (\<lambda>u. f u = k) xs) \<le> 1"
proof (cases "k \<in> set (map f xs)")
  case True
  assume d: "distinct (map f xs)"
  from True obtain x where "x \<in> set xs" "f x = k" by auto
  with filter_key_present [OF d, of x] show ?thesis by simp
next
  case False
  then show ?thesis by (simp add: filter_key_absent del: set_map)
qed

lemma login_unique_reachable:
  "length (filter (\<lambda>u. login u = l) (run_operations operations [])) \<le> 1"
proof -
  have "distinct (map login (run_operations operations []))"
    using wf_db_reachable [of operations] by (simp add: wf_db_def)
  then show ?thesis by (rule length_filter_key_le_1)
qed

lemma register_user_duplicate:
  "hash_password (c_password user_data) = Inr hashed \<Longrightarrow>
   c_login user_data \<in> set (map login session) \<Longrightarrow>
     register_user hash_password session new_id server_now user_data =
       (session, Inl (HTTPException 400 ''User with this email already exists'' []))
     \<and> post_register hash_password session new_id server_now user_data =
       (session, 400, DetailBody ''User with this email already exists'')"
  by (simp add: post_register_def register_user_def create_user_def Let_def answer_def)

text \<open>
  C5 claims that at most one account has a given login, and that a registration with a
  login already in use always fails with the structured conflict, 400 "User with this
  email already exists", never with a raw error. The first holds of every state the
  service reaches from the empty table (\<open>login_unique_reachable\<close>), and the second
  whenever the hasher accepts the password (\<open>register_user_duplicate\<close>). Where the hasher
  raises, as passlib does for a password with a NUL byte, the exception leaves
  \<^verbatim>\<open>create_user\<close> at line 27, \<^verbatim>\<open>except IntegrityError\<close> does not catch it, and the request
  for a login in use ends in the server error 500.
\<close>

theorem register_used_login_hasher_raises:
  assumes "c_login user_data \<in> set (map login session)"
    and "hash_password (c_password user_data) = Inl PasswordValueError"
  shows "create_user hash_password session new_id server_now user_data =
           (session, Inl PasswordValueError)
       \<and> register_user hash_password session new_id server_now user_data =
           (session, Inl PasswordValueError)
       \<and> post_register hash_password session new_id server_now user_data =
           (session, 500, DetailBody ''Internal Server Error'')"
  using assms
  by (simp add: post_register_def register_user_def create_user_def answer_def)

theorem register_used_login_hasher_raises_witness:
  "c_login dave = login alice
   \<and> post_register example_hash [alice, bob] 3 2000 dave =
       ([alice, bob], 500, DetailBody ''Internal Server Error'')
   \<and> register_user example_hash [alice, bob] 3 2000 dave = ([alice, bob], Inl PasswordValueError)"
proof -
  have a: "c_login dave \<in> set (map login [alice, bob])" "c_login dave = login alice"
    and b: "example_hash (c_password dave) = Inl PasswordValueError"
    by (simp_all add: dave_def alice_def example_hash_def)
  from register_used_login_hasher_raises
    [where hash_password = example_hash and user_data = dave and session = "[alice, bob]"
       and new_id = 3 and server_now = 2000, OF a(1) b] a(2)
  show ?thesis by simp
qed

section \<open>C6: the uniform Unauthorized error\<close>

lemma get_current_user_uniform:
  "decode_access_token jwt_decode validate_email token = Inr None \<Longrightarrow>
     get_current_user jwt_decode validate_email session token = Inl credentials_exception"
  "decode_access_token jwt_decode validate_email token = Inr (Some token_data) \<Longrightarrow>
     td_login token_data = Some l \<Longrightarrow> get_user_by_login session l = Inr None \<Longrightarrow>
     get_current_user jwt_decode validate_email session token = Inl credentials_exception"
  by (simp_all add: get_current_user_def)

lemma decode_access_token_rejected:
  "jwt_decode token (SECRET_KEY settings) (ALGORITHM settings) = None \<Longrightarrow>
     decode_access_token jwt_decode validate_email token = Inr None"
  by (simp add: decode_access_token_def)

text \<open>
  C6 claims that a request whose token does not verify, or whose subject does not
  resolve to an account, always gets the same 401 error. That holds when the verifier
  rejects the token, when the subject is missing and when no account has the subject as
  login (\<open>get_current_user_uniform\<close>, \<open>decode_access_token_rejected\<close>). It fails for a
  token that verifies and whose subject is not an e-mail address: \<^verbatim>\<open>TokenData(login=...)\<close>
  raises pydantic's \<^verbatim>\<open>ValidationError\<close>, which \<^verbatim>\<open>except JWTError\<close> does not catch, and the
  request ends in the server error 500, not in 401.
\<close>

theorem get_current_user_malformed_subject:
  assumes "jwt_decode token (SECRET_KEY settings) (ALGORITHM settings) = Some claims"
    and "claims ''sub'' = Some (Str subject)"
    and "validate_email subject = None"
  shows "get_current_user jwt_decode validate_email session token = Inl ValidationError
       \<and> get_current_user jwt_decode validate_email session token \<noteq> Inl credentials_exception
       \<and> answer 200 account_body (get_current_user jwt_decode validate_email session token) =
           (500, DetailBody ''Internal Server Error'')"
  using assms
  by (simp add: get_current_user_def decode_access_token_def credentials_exception_def answer_def)

theorem get_current_user_malformed_subject_witness:
  "get_current_user example_jwt_decode example_validate_email [alice, bob] ''signed-for-admin'' =
     Inl ValidationError
   \<and> answer 200 account_body
       (get_current_user example_jwt_decode example_validate_email [alice, bob]
          ''signed-for-admin'') = (500, DetailBody ''Internal Server Error'')
   \<and> get_current_user example_jwt_decode example_validate_email [alice, bob] ''garbage'' =
     Inl (HTTPException 401 ''Could not validate credentials'' [(''WWW-Authenticate'', ''Bearer'')])"
proof -
  have a: "example_jwt_decode ''signed-for-admin'' (SECRET_KEY settings) (ALGORITHM settings) =
      Some [''sub'' \<mapsto> Str ''admin'']"
    and b: "[''sub'' \<mapsto> Str ''admin''] ''sub'' = Some (Str ''admin'')"
    and c: "example_validate_email ''admin'' = None"
    by (simp_all add: example_jwt_decode_def example_validate_email_def settings_def)
  have "example_jwt_decode ''garbage'' (SECRET_KEY settings) (ALGORITHM settings) = None"
    by (simp add: example_jwt_decode_def)
  then have "get_current_user example_jwt_decode example_validate_email [alice, bob] ''garbage'' =
      Inl credentials_exception"
    by (simp add: get_current_user_uniform decode_access_token_rejected)
  with get_current_user_malformed_subject
    [where jwt_decode = example_jwt_decode and validate_email = example_validate_email
       and token = "''signed-for-admin''" and claims = "[''sub'' \<mapsto> Str ''admin'']"
       and subject = "''admin''" and session = "[alice, bob]", OF a b c]
  show ?thesis by (simp add: credentials_exception_def answer_def)
qed

section \<open>C7: responses never hold the credential hash\<close>

lemma UserResponse_password [simp]:
  "UserResponse_from_attributes (u\<lparr>password := p\<rparr>) = UserResponse_from_attributes u"
  by (simp add: UserResponse_from_attributes_def)

lemma UserResponse_rehash [simp]:
  "map UserResponse_from_attributes (rehash h session) =
     map UserResponse_from_attributes session"
  by (simp add: rehash_def)

lemma filter_id_rehash:
  "filter (\<lambda>r. id_col r = user_id) (rehash h session) =
     rehash h (filter (\<lambda>r. id_col r = user_id) session)"
  by (induction session) (simp_all add: rehash_def)

lemma update_locktime_rehash:
  "update_locktime (rehash h session) user_id t = rehash h (update_locktime session user_id t)"
  by (simp add: update_locktime_def rehash_def)

lemma keys_rehash [simp]:
  "map login (rehash h session) = map login session"
  "map id_col (rehash h session) = map id_col session"
  by (simp_all add: rehash_def)

lemma post_users_acquire_rehash:
  "post_users_acquire utcoffset (rehash h session) utcnow user_id current_user' =
     apfst (rehash h) (post_users_acquire utcoffset session utcnow user_id current_user)"
proof (cases user_id session rule: filter_id_cases)
  case absent
  then have "filter (\<lambda>r. id_col r = user_id) (rehash h session) = []"
    by (simp only: filter_id_rehash) (simp add: rehash_def)
  with absent show ?thesis
    by (simp add: post_users_acquire_def acquire_user_lock_absent)
next
  case (one u)
  then have rows: "filter (\<lambda>r. id_col r = user_id) (rehash h session) =
      [u\<lparr>password := h (id_col u)\<rparr>]"
    by (simp only: filter_id_rehash) (simp add: rehash_def)
  show ?thesis
  proof (cases "locktime u = None")
    case True
    then have "locktime (u\<lparr>password := h (id_col u)\<rparr>) = None" by simp
    from acquire_user_lock_free [OF rows this, of utcoffset utcnow]
      acquire_user_lock_free [OF one True, of utcoffset utcnow]
    show ?thesis
      by (simp add: post_users_acquire_def update_locktime_rehash answer_def account_body_def
          UserResponse_from_attributes_def)
  next
    case False
    then have "locktime (u\<lparr>password := h (id_col u)\<rparr>) \<noteq> None" by simp
    from acquire_user_lock_locked [OF rows this, of utcoffset utcnow]
      acquire_user_lock_locked [OF one False, of utcoffset utcnow]
    show ?thesis by (simp add: post_users_acquire_def)
  qed
next
  case (many u u' us)
  then have "filter (\<lambda>r. id_col r = user_id) (rehash h session) =
      u\<lparr>password := h (id_col u)\<rparr> # u'\<lparr>password := h (id_col u')\<rparr> # rehash h us"
    by (simp only: filter_id_rehash) (simp add: rehash_def)
  with many show ?thesis
    by (simp add: post_users_acquire_def acquire_user_lock_many)
qed

lemma post_users_release_rehash:
  "post_users_release (rehash h session) user_id current_user' =
     apfst (rehash h) (post_users_release session user_id current_user)"
proof (cases user_id session rule: filter_id_cases)
  case absent
  then have "filter (\<lambda>r. id_col r = user_id) (rehash h session) = []"
    by (simp only: filter_id_rehash) (simp add: rehash_def)
  with absent show ?thesis
    by (simp add: post_users_release_def release_user_lock_absent)
next
  case (one u)
  then have rows: "filter (\<lambda>r. id_col r = user_id) (rehash h session) =
      [u\<lparr>password := h (id_col u)\<rparr>]"
    by (simp only: filter_id_rehash) (simp add: rehash_def)
  from release_user_lock_present [OF rows] release_user_lock_present [OF one]
  show ?thesis
    by (simp add: post_users_release_def update_locktime_rehash answer_def account_body_def
        UserResponse_from_attributes_def)
next
  case (many u u' us)
  then have "filter (\<lambda>r. id_col r = user_id) (rehash h session) =
      u\<lparr>password := h (id_col u)\<rparr> # u'\<lparr>password := h (id_col u')\<rparr> # rehash h us"
    by (simp only: filter_id_rehash) (simp add: rehash_def)
  with many show ?thesis
    by (simp add: post_users_release_def release_user_lock_many)
qed

lemma post_register_rehash:
  "snd (post_register (\<lambda>p. map_sum id g (hash_password p)) (rehash h session) new_id
          server_now user_data) =
     snd (post_register hash_password session new_id server_now user_data)"
  by (cases "hash_password (c_password user_data)")
     (auto simp: post_register_def register_user_def create_user_def Let_def answer_def
        account_body_def UserResponse_from_attributes_def split: exn.splits)

lemma post_register_other_hasher:
  "map_sum id (\<lambda>hashed. ()) (hash_password' (c_password user_data)) =
     map_sum id (\<lambda>hashed. ()) (hash_password (c_password user_data)) \<Longrightarrow>
   snd (post_register hash_password' (rehash h session) new_id server_now user_data) =
     snd (post_register hash_password session new_id server_now user_data)"
  by (cases "hash_password (c_password user_data)"; cases "hash_password' (c_password user_data)")
     (auto simp: post_register_def register_user_def create_user_def Let_def answer_def
        account_body_def UserResponse_from_attributes_def split: exn.splits)

text \<open>
  C7: on every path that returns an account (register, users/me, list users, acquire,
  release) the response does not depend on the stored credential hash: an account with
  another hash, and a table whose rows have other hashes (\<open>rehash\<close>), give the same
  status and body, and the tables after the request differ by the hashes only.
\<close>

theorem responses_hide_credential_hash:
  "UserResponse_from_attributes (u\<lparr>password := p\<rparr>) = UserResponse_from_attributes u
   \<and> get_users_me (u\<lparr>password := p\<rparr>) = get_users_me u
   \<and> get_users_route (rehash h session) current_user' = get_users_route session current_user
   \<and> post_users_acquire utcoffset (rehash h session) utcnow user_id current_user' =
       apfst (rehash h) (post_users_acquire utcoffset session utcnow user_id current_user)
   \<and> post_users_release (rehash h session) user_id current_user' =
       apfst (rehash h) (post_users_release session user_id current_user)
   \<and> snd (post_register (\<lambda>p. map_sum id g (hash_password p)) (rehash h session) new_id
          server_now user_data) =
       snd (post_register hash_password session new_id server_now user_data)
   \<and> (map_sum id (\<lambda>hashed. ()) (hash_password' (c_password user_data)) =
          map_sum id (\<lambda>hashed. ()) (hash_password (c_password user_data)) \<longrightarrow>
        snd (post_register hash_password' (rehash h session) new_id server_now user_data) =
          snd (post_register hash_password session new_id server_now user_data))"
proof (intro conjI impI)
  show "UserResponse_from_attributes (u\<lparr>password := p\<rparr>) = UserResponse_from_attributes u"
    by simp
  show "get_users_me (u\<lparr>password := p\<rparr>) = get_users_me u"
    by (simp add: get_users_me_def get_current_user_info_def answer_def account_body_def)
  show "get_users_route (rehash h session) current_user' = get_users_route session current_user"
    by (simp add: get_users_route_def get_users_def get_all_users_def answer_def
        accounts_body_def)
  show "post_users_acquire utcoffset (rehash h session) utcnow user_id current_user' =
      apfst (rehash h) (post_users_acquire utcoffset session utcnow user_id current_user)"
    by (rule post_users_acquire_rehash)
  show "post_users_release (rehash h session) user_id current_user' =
      apfst (rehash h) (post_users_release session user_id current_user)"
    by (rule post_users_release_rehash)
  show "snd (post_register (\<lambda>p. map_sum id g (hash_password p)) (rehash h session) new_id
          server_now user_data) =
      snd (post_register hash_password session new_id server_now user_data)"
    by (rule post_register_rehash)
  show "snd (post_register hash_password' (rehash h session) new_id server_now user_data) =
      snd (post_register hash_password session new_id server_now user_data)"
    if "map_sum id (\<lambda>hashed. ()) (hash_password' (c_password user_data)) =
      map_sum id (\<lambda>hashed. ()) (hash_password (c_password user_data))"
    using that by (rule post_register_other_hasher)
qed

theorem responses_hide_credential_hash_witness:
  "get_users_route [alice\<lparr>password := ''other''\<rparr>, bob\<lparr>password := ''other''\<rparr>] bob =
     get_users_route [alice, bob] alice
   \<and> snd (post_users_acquire 0 [alice\<lparr>password := ''other''\<rparr>, bob\<lparr>password := ''other''\<rparr>]
            2000 1 bob) =
     snd (post_users_acquire 0 [alice, bob] 2000 1 alice)
   \<and> get_users_me (alice\<lparr>password := ''other''\<rparr>) =
       (200, AccountBody \<lparr>r_id = 1, r_created_at = 1000, r_login = ''alice@x.com'',
          r_project_id = 7, r_env = ''prod'', r_domain = ''regular'', r_locktime = None\<rparr>)
   \<and> snd (post_register (\<lambda>p. Inr ''other'')
            [alice\<lparr>password := ''other''\<rparr>, bob\<lparr>password := ''other''\<rparr>] 3 2000 carol) =
       (201, AccountBody \<lparr>r_id = 3, r_created_at = 2000, r_login = ''carol@x.com'',
          r_project_id = 7, r_env = ''preprod'', r_domain = ''regular'', r_locktime = None\<rparr>)"
proof -
  have reg: "snd (post_register example_hash [alice, bob] 3 2000 carol) =
      (201, AccountBody \<lparr>r_id = 3, r_created_at = 2000, r_login = ''carol@x.com'',
          r_project_id = 7, r_env = ''preprod'', r_domain = ''regular'', r_locktime = None\<rparr>)"
    by (simp add: post_register_def register_user_def create_user_def Let_def answer_def
        account_body_def UserResponse_from_attributes_def example_hash_def nul_def carol_def
        alice_def bob_def)
  have alike: "map_sum id (\<lambda>hashed. ()) ((\<lambda>p. Inr ''other'') (c_password carol)) =
      map_sum id (\<lambda>hashed. ()) (example_hash (c_password carol))"
    by (simp add: example_hash_def nul_def carol_def)
  have r: "rehash (\<lambda>i. ''other'') [alice, bob] =
      [alice\<lparr>password := ''other''\<rparr>, bob\<lparr>password := ''other''\<rparr>]"
    by (simp add: rehash_def)
  have me: "get_users_me alice =
      (200, AccountBody \<lparr>r_id = 1, r_created_at = 1000, r_login = ''alice@x.com'',
          r_project_id = 7, r_env = ''prod'', r_domain = ''regular'', r_locktime = None\<rparr>)"
    by (simp add: get_users_me_def get_current_user_info_def answer_def account_body_def
        UserResponse_from_attributes_def alice_def)
  from responses_hide_credential_hash
    [where u = alice and p = "''other''" and h = "\<lambda>i. ''other''" and session = "[alice, bob]"
       and current_user' = bob and current_user = alice and utcoffset = 0 and utcnow = 2000
       and user_id = 1 and hash_password' = "\<lambda>p. Inr ''other''" and hash_password = example_hash
       and user_data = carol and new_id = 3 and server_now = 2000] alike
  have "get_users_me (alice\<lparr>password := ''other''\<rparr>) = get_users_me alice"
    and "get_users_route (rehash (\<lambda>i. ''other'') [alice, bob]) bob =
      get_users_route [alice, bob] alice"
    and "post_users_acquire 0 (rehash (\<lambda>i. ''other'') [alice, bob]) 2000 1 bob =
      apfst (rehash (\<lambda>i. ''other'')) (post_users_acquire 0 [alice, bob] 2000 1 alice)"
    and "snd (post_register (\<lambda>p. Inr ''other'') (rehash (\<lambda>i. ''other'') [alice, bob]) 3 2000
        carol) = snd (post_register example_hash [alice, bob] 3 2000 carol)"
    by simp_all
  with r me reg show ?thesis by simp
qed

section \<open>C8: only the lock timestamp changes\<close>

lemma frame_acquire_lock:
  "map immutable_fields (fst (acquire_lock utcoffset session utcnow user_id)) = map immutable_fields session"
  using acquire_lock_state [of utcoffset session utcnow user_id] by auto

lemma frame_release_lock:
  "map immutable_fields (fst (release_lock session user_id)) = map immutable_fields session"
  using release_lock_state [of session user_id] by auto

text \<open>
  C8: acquire and release change nothing but \<^verbatim>\<open>locktime\<close>: the table after them has the
  same rows with the same id, creation time, login, credential hash, project, environment
  and domain type. No sequence of writes of the service changes these fields of a row
  that exists (a registration only adds a row).
\<close>

theorem frame_condition:
  "map immutable_fields (fst (acquire_lock utcoffset session utcnow user_id)) = map immutable_fields session
   \<and> map immutable_fields (fst (release_lock session user_id)) = map immutable_fields session
   \<and> map immutable_fields (fst (acquire_user_lock utcoffset session utcnow user_id current_user)) =
       map immutable_fields session
   \<and> map immutable_fields (fst (release_user_lock session user_id current_user)) =
       map immutable_fields session
   \<and> map immutable_fields (take (length session) (run_operations operations session)) =
       map immutable_fields session"
  by (simp add: frame_acquire_lock frame_release_lock fst_acquire_user_lock
      fst_release_user_lock frame_run_operations)

theorem frame_condition_witness:
  "map immutable_fields (fst (acquire_lock 0 [alice, bob] 2000 1)) = map immutable_fields [alice, bob]
   \<and> map immutable_fields (fst (release_lock [alice, bob] 2)) = map immutable_fields [alice, bob]
   \<and> fst (acquire_lock 0 [alice, bob] 2000 1) = [alice\<lparr>locktime := Some 2000\<rparr>, bob]
   \<and> fst (release_lock [alice, bob] 2) = [alice, bob\<lparr>locktime := None\<rparr>]"
proof -
  have rows: "filter (\<lambda>r. id_col r = 2) [alice, bob] = [bob]"
    "filter (\<lambda>r. id_col r = 1) [alice, bob] = [alice]" "locktime alice = None"
    and upd: "update_locktime [alice, bob] 1 (Some (2000 - 0)) = [alice\<lparr>locktime := Some 2000\<rparr>, bob]"
      "update_locktime [alice, bob] 2 None = [alice, bob\<lparr>locktime := None\<rparr>]"
    by (simp_all add: alice_def bob_def update_locktime_def)
  from rows upd have "fst (acquire_lock 0 [alice, bob] 2000 1) = [alice\<lparr>locktime := Some 2000\<rparr>, bob]"
    and "fst (release_lock [alice, bob] 2) = [alice, bob\<lparr>locktime := None\<rparr>]"
    by (simp_all add: acquire_lock_free release_lock_present)
  with frame_condition [of 0 "[alice, bob]" 2000 1 alice "[]"]
    frame_condition [of 0 "[alice, bob]" 2000 2 alice "[]"] show ?thesis by simp
qed

section \<open>C9: the expiry of a token\<close>

lemma jwt_claims_exp:
  "jwt_claims (data(''exp'' \<mapsto> Time e)) = (jwt_claims data)(''exp'' \<mapsto> IntDate (e div 1000000))"
  by (auto simp: jwt_claims_def intdate_def fun_eq_iff)

lemma jwt_claims_strings:
  "jwt_claims [''sub'' \<mapsto> Str l] = [''sub'' \<mapsto> Str l]" "jwt_claims Map.empty = Map.empty"
  by (auto simp: jwt_claims_def fun_eq_iff)

lemma create_access_token_signs:
  "create_access_token sign now data expires_delta =
     map_sum id (\<lambda>claims. sign claims (SECRET_KEY settings) (ALGORITHM settings))
       (signed_claims now data expires_delta)"
  by (cases "to_encode now data expires_delta")
     (simp_all add: create_access_token_def signed_claims_def jwt_encode_def)

text \<open>
  C9, as amended: without an override, and also with an override of zero (which Python
  takes for false), the expiry claim of the token is the issue time plus the default of
  30 minutes, in whole seconds since the epoch, rounded down; with an override other
  than zero it is the issue time plus the override, in whole seconds, rounded down. When
  the sum is no \<^verbatim>\<open>datetime\<close> (outside the years 1 to 9999) the addition raises
  \<^verbatim>\<open>OverflowError\<close> and no token is issued.
\<close>

theorem token_expiry:
  "(datetime_min \<le> now + timedelta_minutes 30 \<and> now + timedelta_minutes 30 \<le> datetime_max \<longrightarrow>
      signed_claims now data None =
        Inr ((jwt_claims data)(''exp'' \<mapsto> IntDate ((now + timedelta_minutes 30) div 1000000)))
      \<and> signed_claims now data (Some 0) =
        Inr ((jwt_claims data)(''exp'' \<mapsto> IntDate ((now + timedelta_minutes 30) div 1000000)))
      \<and> create_access_token sign now data None =
        Inr (sign ((jwt_claims data)(''exp'' \<mapsto>
                IntDate ((now + timedelta_minutes 30) div 1000000)))
               (SECRET_KEY settings) (ALGORITHM settings)))
   \<and> (d \<noteq> 0 \<and> datetime_min \<le> now + d \<and> now + d \<le> datetime_max \<longrightarrow>
      signed_claims now data (Some d) =
        Inr ((jwt_claims data)(''exp'' \<mapsto> IntDate ((now + d) div 1000000)))
      \<and> create_access_token sign now data (Some d) =
        Inr (sign ((jwt_claims data)(''exp'' \<mapsto> IntDate ((now + d) div 1000000)))
               (SECRET_KEY settings) (ALGORITHM settings)))
   \<and> (\<not> (datetime_min \<le> now + timedelta_minutes 30 \<and> now + timedelta_minutes 30 \<le> datetime_max)
        \<longrightarrow>
      create_access_token sign now data None = Inl OverflowError
      \<and> create_access_token sign now data (Some 0) = Inl OverflowError)
   \<and> (d \<noteq> 0 \<and> \<not> (datetime_min \<le> now + d \<and> now + d \<le> datetime_max) \<longrightarrow>
      create_access_token sign now data (Some d) = Inl OverflowError)
   \<and> timedelta_minutes 30 = 30 * 60 * 1000000"
proof -
  have default: "ACCESS_TOKEN_EXPIRE_MINUTES settings = 30" by (simp add: settings_def)
  show ?thesis
    by (simp add: create_access_token_signs signed_claims_def to_encode_def datetime_add_def
        default jwt_claims_exp)
       (simp add: timedelta_minutes_def)
qed

theorem token_expiry_witness:
  "signed_claims 1000500 [''sub'' \<mapsto> Str ''alice@x.com''] None =
     Inr [''sub'' \<mapsto> Str ''alice@x.com'', ''exp'' \<mapsto> IntDate 1801]
   \<and> signed_claims 1000500 [''sub'' \<mapsto> Str ''alice@x.com''] (Some 60000000) =
     Inr [''sub'' \<mapsto> Str ''alice@x.com'', ''exp'' \<mapsto> IntDate 61]
   \<and> create_access_token (\<lambda>claims key algorithm. key) 1000500
       [''sub'' \<mapsto> Str ''alice@x.com''] (Some 259200000000000000) = Inl OverflowError"
proof -
  have a: "datetime_min \<le> 1000500 + timedelta_minutes 30 \<and>
      1000500 + timedelta_minutes 30 \<le> datetime_max"
    and b: "(60000000::int) \<noteq> 0 \<and> datetime_min \<le> 1000500 + 60000000 \<and>
      1000500 + 60000000 \<le> datetime_max"
    and c: "(259200000000000000::int) \<noteq> 0 \<and>
      \<not> (datetime_min \<le> 1000500 + 259200000000000000 \<and>
         1000500 + 259200000000000000 \<le> datetime_max)"
    and v: "(1000500 + timedelta_minutes 30) div 1000000 = 1801"
      "((1000500::int) + 60000000) div 1000000 = 61"
    by (simp_all add: datetime_min_def datetime_max_def timedelta_minutes_def)
  from token_expiry [of 1000500 "[''sub'' \<mapsto> Str ''alice@x.com'']" "\<lambda>claims key algorithm. key"
      60000000] a b
  have "signed_claims 1000500 [''sub'' \<mapsto> Str ''alice@x.com''] None =
      Inr ((jwt_claims [''sub'' \<mapsto> Str ''alice@x.com''])(''exp'' \<mapsto>
        IntDate ((1000500 + timedelta_minutes 30) div 1000000)))"
    and "signed_claims 1000500 [''sub'' \<mapsto> Str ''alice@x.com''] (Some 60000000) =
      Inr ((jwt_claims [''sub'' \<mapsto> Str ''alice@x.com''])(''exp'' \<mapsto>
        IntDate ((1000500 + 60000000) div 1000000)))"
    by blast+
  moreover
  from token_expiry [of 1000500 "[''sub'' \<mapsto> Str ''alice@x.com'']" "\<lambda>claims key algorithm. key"
      259200000000000000] c
  have "create_access_token (\<lambda>claims key algorithm. key) 1000500
       [''sub'' \<mapsto> Str ''alice@x.com''] (Some 259200000000000000) = Inl OverflowError"
    by blast
  ultimately show ?thesis using v by (simp add: jwt_claims_strings)
qed

text \<open>
  C9 as stated fails in three ways. For the override \<^verbatim>\<open>timedelta(0)\<close> the expiry is the
  issue time plus 30 minutes. For an issue time of 0.001 s the expiry claim is 1800, not
  1800.001. For an override of three million days there is no expiry: the addition raises.
\<close>

theorem token_expiry_counterexample:
  "signed_claims 1000 Map.empty (Some 0) = Inr [''exp'' \<mapsto> IntDate 1800]
   \<and> signed_claims 1000 Map.empty (Some 0) \<noteq> Inr [''exp'' \<mapsto> IntDate ((1000 + 0) div 1000000)]
   \<and> signed_claims 1000 Map.empty None = Inr [''exp'' \<mapsto> IntDate 1800]
   \<and> (1800::int) * 1000000 \<noteq> 1000 + timedelta_minutes 30
   \<and> signed_claims 1000 Map.empty (Some 259200000000000000) = Inl OverflowError"
proof -
  have default: "ACCESS_TOKEN_EXPIRE_MINUTES settings = 30" by (simp add: settings_def)
  have a: "signed_claims 1000 Map.empty (Some 0) = Inr [''exp'' \<mapsto> IntDate 1800]"
    "signed_claims 1000 Map.empty None = Inr [''exp'' \<mapsto> IntDate 1800]"
    by (simp_all add: signed_claims_def to_encode_def datetime_add_def default
        timedelta_minutes_def datetime_min_def datetime_max_def jwt_claims_exp jwt_claims_strings)
  have b: "signed_claims 1000 Map.empty (Some 259200000000000000) = Inl OverflowError"
    by (simp add: signed_claims_def to_encode_def datetime_add_def datetime_min_def
        datetime_max_def)
  have "[''exp'' \<mapsto> IntDate 1800] ''exp'' \<noteq> [''exp'' \<mapsto> IntDate ((1000 + 0) div 1000000)] ''exp''"
    by simp
  then have c: "[''exp'' \<mapsto> IntDate 1800] \<noteq> [''exp'' \<mapsto> IntDate ((1000 + 0) div 1000000)]"
    by metis
  have d: "(1800::int) * 1000000 \<noteq> 1000 + timedelta_minutes 30"
    by (simp add: timedelta_minutes_def)
  from a b c d show ?thesis by simp
qed

section \<open>C10: a failed acquire writes nothing\<close>

text \<open>
  C10: whenever acquire fails, the table is unchanged: when \<^verbatim>\<open>acquire_lock\<close> returns
  \<^verbatim>\<open>None\<close> (no such account, or already locked) or raises, and when the handler raises
  (404, 423 or an error of the database), the state after is the state before.
\<close>

theorem acquire_failure_leaves_store:
  "(acquire_lock utcoffset session utcnow user_id = (session', Inr None) \<longrightarrow> session' = session)
   \<and> (acquire_lock utcoffset session utcnow user_id = (session', Inl e) \<longrightarrow> session' = session)
   \<and> (acquire_user_lock utcoffset session utcnow user_id current_user = (session', Inl e') \<longrightarrow>
        session' = session)"
proof (cases user_id session rule: filter_id_cases)
  case absent
  then show ?thesis by (simp add: acquire_lock_absent acquire_user_lock_absent)
next
  case (one u)
  then show ?thesis
    by (cases "locktime u = None")
       (auto simp: acquire_lock_locked acquire_lock_free acquire_user_lock_free
          acquire_user_lock_locked)
next
  case (many u u' us)
  then show ?thesis by (auto simp: acquire_lock_many acquire_user_lock_many)
qed

theorem acquire_failure_leaves_store_witness:
  "acquire_lock 0 [alice, bob] 2000 2 = ([alice, bob], Inr None)
   \<and> acquire_user_lock 0 [alice, bob] 2000 3 alice =
       ([alice, bob], Inl (HTTPException 404 ''User not found'' []))"
proof -
  have rows: "filter (\<lambda>r. id_col r = 2) [alice, bob] = [bob]"
    "filter (\<lambda>r. id_col r = 3) [alice, bob] = []" "locktime bob \<noteq> None"
    by (simp_all add: alice_def bob_def)
  have "snd (acquire_lock 0 [alice, bob] 2000 2) = Inr None"
    using rows by (simp add: acquire_lock_locked)
  then have "acquire_lock 0 [alice, bob] 2000 2 = (fst (acquire_lock 0 [alice, bob] 2000 2), Inr None)"
    by (metis prod.collapse)
  with acquire_failure_leaves_store
    [of 0 "[alice, bob]" 2000 2 "fst (acquire_lock 0 [alice, bob] 2000 2)"]
  have "acquire_lock 0 [alice, bob] 2000 2 = ([alice, bob], Inr None)" by simp
  moreover
  have "snd (acquire_user_lock 0 [alice, bob] 2000 3 alice) =
      Inl (HTTPException 404 ''User not found'' [])"
    using rows by (simp add: acquire_user_lock_absent)
  then have "acquire_user_lock 0 [alice, bob] 2000 3 alice =
      (fst (acquire_user_lock 0 [alice, bob] 2000 3 alice),
       Inl (HTTPException 404 ''User not found'' []))"
    by (metis prod.collapse)
  with acquire_failure_leaves_store
    [of 0 "[alice, bob]" 2000 3 "fst (acquire_user_lock 0 [alice, bob] 2000 3 alice)" _ alice
       "HTTPException 404 ''User not found'' []"]
  have "acquire_user_lock 0 [alice, bob] 2000 3 alice =
       ([alice, bob], Inl (HTTPException 404 ''User not found'' []))" by simp
  ultimately show ?thesis by simp
qed

end
